theory Spec2Isabelle
  imports Main
begin

section \<open>Values, records and frames\<close>

text \<open>
  A spreadsheet cell as the program sees it before normalisation: text, a whole number or
  a truth value. Floating-point and date cells are left out: their string form is the
  number formatting of the Python runtime.
\<close>

datatype cell = CStr string | CInt int | CBool bool

text \<open>An exception object; the program only ever reads its message (\<open>str(e)\<close>).\<close>

datatype py_exception = PyException string

fun digit_char :: "nat \<Rightarrow> char" where
  "digit_char n = char_of (48 + n)"

fun nat_to_dec :: "nat \<Rightarrow> string" where
  "nat_to_dec n = (if n < 10 then [digit_char n] else nat_to_dec (n div 10) @ [digit_char (n mod 10)])"

declare nat_to_dec.simps [simp del]

text \<open>Python's \<open>str(v)\<close> on a cell.\<close>

fun py_str :: "cell \<Rightarrow> string" where
  "py_str (CStr s) = s"
| "py_str (CInt i) = (if i < 0 then CHR ''-'' # nat_to_dec (nat (- i)) else nat_to_dec (nat i))"
| "py_str (CBool b) = (if b then ''True'' else ''False'')"

text \<open>
  A record is a Python dict with string keys: an association list in insertion order
  (a dict has each key once). \<open>record.get(field, '')\<close> is a lookup with the empty
  string as default, \<open>key in record\<close> a lookup that is not \<open>None\<close>, and
  \<open>record.items()\<close> the list itself.
\<close>

type_synonym pyrecord = "(string \<times> cell) list"

definition record_get :: "pyrecord \<Rightarrow> string \<Rightarrow> cell" where
  "record_get record field = (case map_of record field of None \<Rightarrow> CStr [] | Some v \<Rightarrow> v)"

section \<open>QRGenerator.generate_qr_concatenated\<close>

text \<open>
  The loop \<open>for field in selected_fields: concatenated_data += str(record.get(field, '')) + separator\<close>,
  with the string built so far as accumulator.
\<close>

fun concat_fields :: "pyrecord \<Rightarrow> string \<Rightarrow> string list \<Rightarrow> string \<Rightarrow> string" where
  "concat_fields record separator [] concatenated = concatenated"
| "concat_fields record separator (field # fields) concatenated =
     concat_fields record separator fields
       (concatenated @ (py_str (record_get record field) @ separator))"

definition concatenated_data :: "pyrecord \<Rightarrow> string list \<Rightarrow> string \<Rightarrow> string" where
  "concatenated_data record selected_fields separator =
     concat_fields record separator selected_fields (''AR-QR'' @ separator)"

text \<open>
  The settings handed to the matrix-code library, and the library itself as a parameter:
  \<open>qr_render\<close> stands for \<open>QRCode(...)\<close>, \<open>add_data\<close>, \<open>make(fit=True)\<close>,
  \<open>make_image\<close>, the PNG serialisation and the \<open>Image\<close> wrapper; it answers with the
  image or with the exception one of these raised.
\<close>

datatype ec_level = ERROR_CORRECT_L | ERROR_CORRECT_M | ERROR_CORRECT_Q | ERROR_CORRECT_H

record qr_settings =
  version :: nat
  error_correction :: ec_level
  box_size :: int
  border :: nat
  fit :: bool

definition qr_config :: "int \<Rightarrow> qr_settings" where
  "qr_config bs = \<lparr>version = 1, error_correction = ERROR_CORRECT_L, box_size = bs, border = 4, fit = True\<rparr>"

definition generate_qr_concatenated ::
  "(qr_settings \<Rightarrow> string \<Rightarrow> py_exception + 'img) \<Rightarrow> pyrecord \<Rightarrow> string list \<Rightarrow> string \<Rightarrow> int
     \<Rightarrow> py_exception + ('img \<times> string)" where
  "generate_qr_concatenated qr_render record selected_fields separator bs =
     (let data = concatenated_data record selected_fields separator in
      case qr_render (qr_config bs) data of
        Inl e \<Rightarrow> Inl e
      | Inr img \<Rightarrow> Inr (img, data))"

section \<open>Separator-delimited segments\<close>

text \<open>
  The payload is read back by cutting it at the separator character. A segment is a piece
  of the string closed by a separator; text after the last separator, if there is any, is
  one more segment. The program has no such function: this one follows the specification's
  words "separator-delimited sequence", so that the segment count of a payload can be
  stated.
\<close>

fun segments_from :: "char \<Rightarrow> string \<Rightarrow> string \<Rightarrow> string list" where
  "segments_from c cur [] = (if cur = [] then [] else [cur])"
| "segments_from c cur (x # xs) =
     (if x = c then cur # segments_from c [] xs else segments_from c (cur @ [x]) xs)"

definition segments :: "char \<Rightarrow> string \<Rightarrow> string list" where
  "segments c s = segments_from c [] s"

section \<open>PDFGenerator.generate_pdf\<close>

text \<open>
  The story handed to the page-layout library is a list of flowables. A paragraph keeps
  its markup text and its style; a spacer keeps its height in millimetres (\<open>0.3*cm\<close>
  and \<open>0.2*cm\<close> in the program); a table keeps its rows, each a label and a value.
\<close>

datatype para_style = TitleStyle | NormalStyle | QRNote

datatype para = Paragraph string para_style

datatype 'img flowable =
    Para para
  | Spacer nat
  | QRImage 'img
  | Table "(para \<times> para) list"
  | PageBreak

text \<open>
  The libraries the generator calls, as parameters: the matrix-code renderer, the markup
  parser that runs when a \<open>Paragraph\<close> is constructed (it raises on text it cannot
  parse), and \<open>doc.build\<close>, which turns the story into the document or raises.
\<close>

record ('img, 'pdf) libraries =
  qr_render :: "qr_settings \<Rightarrow> string \<Rightarrow> py_exception + 'img"
  parse_markup :: "string \<Rightarrow> py_exception option"
  doc_build :: "'img flowable list \<Rightarrow> py_exception + 'pdf"

definition new_paragraph ::
  "(string \<Rightarrow> py_exception option) \<Rightarrow> string \<Rightarrow> para_style \<Rightarrow> py_exception + para" where
  "new_paragraph parse text style =
     (case parse text of Some e \<Rightarrow> Inl e | None \<Rightarrow> Inr (Paragraph text style))"

text \<open>
  \<open>str.capitalize\<close> on ASCII letters: the first character in upper case, the others in
  lower case. Bytes outside the ASCII letters stay as they are.
\<close>

definition ascii_upper :: "char \<Rightarrow> char" where
  "ascii_upper c =
     (let n = (of_char c :: nat) in if 97 \<le> n \<and> n \<le> 122 then char_of (n - 32) else c)"

definition ascii_lower :: "char \<Rightarrow> char" where
  "ascii_lower c =
     (let n = (of_char c :: nat) in if 65 \<le> n \<and> n \<le> 90 then char_of (n + 32) else c)"

fun capitalize :: "string \<Rightarrow> string" where
  "capitalize [] = []"
| "capitalize (c # cs) = ascii_upper c # map ascii_lower cs"

text \<open>One table row: the label paragraph, then the value paragraph.\<close>

definition table_row ::
  "(string \<Rightarrow> py_exception option) \<Rightarrow> string \<Rightarrow> cell \<Rightarrow> py_exception + (para \<times> para)" where
  "table_row parse key val =
     (case new_paragraph parse (''<b>'' @ capitalize key @ ''</b>:'') NormalStyle of
        Inl e \<Rightarrow> Inl e
      | Inr label \<Rightarrow>
          (case new_paragraph parse (py_str val) NormalStyle of
             Inl e \<Rightarrow> Inl e
           | Inr v \<Rightarrow> Inr (label, v)))"

text \<open>
  The first loop of the table: \<open>for field in selected_fields: if field in record: ...\<close>,
  with \<open>data\<close> as accumulator.
\<close>

fun selected_rows ::
  "(string \<Rightarrow> py_exception option) \<Rightarrow> pyrecord \<Rightarrow> string list \<Rightarrow> (para \<times> para) list
     \<Rightarrow> py_exception + (para \<times> para) list" where
  "selected_rows parse record [] data = Inr data"
| "selected_rows parse record (field # others) data =
     (case map_of record field of
        None \<Rightarrow> selected_rows parse record others data
      | Some val \<Rightarrow>
          (case table_row parse field val of
             Inl e \<Rightarrow> Inl e
           | Inr row \<Rightarrow> selected_rows parse record others (data @ [row])))"

text \<open>
  The second loop:
  \<open>for key, value in record.items(): if key not in selected_fields and key != 'nombre': ...\<close>.
\<close>

fun remaining_rows ::
  "(string \<Rightarrow> py_exception option) \<Rightarrow> string list \<Rightarrow> pyrecord \<Rightarrow> (para \<times> para) list
     \<Rightarrow> py_exception + (para \<times> para) list" where
  "remaining_rows parse selected_fields [] data = Inr data"
| "remaining_rows parse selected_fields ((key, val) # items) data =
     (if key \<notin> set selected_fields \<and> key \<noteq> ''nombre'' then
        (case table_row parse key val of
           Inl e \<Rightarrow> Inl e
         | Inr row \<Rightarrow> remaining_rows parse selected_fields items (data @ [row]))
      else remaining_rows parse selected_fields items data)"

definition table_data ::
  "(string \<Rightarrow> py_exception option) \<Rightarrow> string list \<Rightarrow> pyrecord
     \<Rightarrow> py_exception + (para \<times> para) list" where
  "table_data parse selected_fields record =
     (case selected_rows parse record selected_fields [] of
        Inl e \<Rightarrow> Inl e
      | Inr data \<Rightarrow> remaining_rows parse selected_fields record data)"

text \<open>The title: \<open>if 'nombre' in record: elements.append(Paragraph(str(record['nombre']), ...))\<close>.\<close>

definition add_title ::
  "(string \<Rightarrow> py_exception option) \<Rightarrow> pyrecord \<Rightarrow> 'img flowable list
     \<Rightarrow> py_exception + 'img flowable list" where
  "add_title parse record elements =
     (case map_of record ''nombre'' of
        None \<Rightarrow> Inr elements
      | Some val \<Rightarrow>
          (case new_paragraph parse (py_str val) TitleStyle of
             Inl e \<Rightarrow> Inl e
           | Inr title \<Rightarrow> Inr (elements @ [Para title])))"

text \<open>
  The body of the \<open>try\<close> for the record at index \<open>i\<close> of \<open>n\<close>. The program appends to
  the one list \<open>elements\<close> as it goes, so the body answers with the list as it stands when
  the body ends: at its last statement (no exception) or at the statement that raised.
\<close>

definition label_body ::
  "('img, 'pdf) libraries \<Rightarrow> string list \<Rightarrow> nat \<Rightarrow> nat \<Rightarrow> pyrecord \<Rightarrow> 'img flowable list
     \<Rightarrow> py_exception option \<times> 'img flowable list" where
  "label_body lib selected_fields i n record elements =
     (case add_title (parse_markup lib) record elements of
        Inl e \<Rightarrow> (Some e, elements)
      | Inr elements1 \<Rightarrow>
          (let elements2 = elements1 @ [Spacer 3] in
           case generate_qr_concatenated (qr_render lib) record selected_fields ''|'' 10 of
             Inl e \<Rightarrow> (Some e, elements2)
           | Inr (qr_image, qr_data) \<Rightarrow>
               (let elements3 = elements2 @ [QRImage qr_image, Spacer 3] in
                case table_data (parse_markup lib) selected_fields record of
                  Inl e \<Rightarrow> (Some e, elements3)
                | Inr data \<Rightarrow>
                    (let elements4 = (if data \<noteq> [] then elements3 @ [Table data] else elements3);
                         elements5 = elements4 @ [Spacer 2]
                     in case new_paragraph (parse_markup lib)
                               (''<i>QR: '' @ qr_data @ ''</i>'') QRNote of
                          Inl e \<Rightarrow> (Some e, elements5)
                        | Inr qr_note \<Rightarrow>
                            (let elements6 = elements5 @ [Para qr_note] in
                             (None, if int i < int n - 1 then elements6 @ [PageBreak]
                                    else elements6))))))"

text \<open>
  \<open>for i, record in enumerate(records): try: ... except Exception: print(...)\<close>. The
  handler only prints, so the next record goes on from the list as the failed body left
  it. The printed lines are not part of the model.
\<close>

fun label_loop ::
  "('img, 'pdf) libraries \<Rightarrow> string list \<Rightarrow> nat \<Rightarrow> nat \<Rightarrow> pyrecord list \<Rightarrow> 'img flowable list
     \<Rightarrow> 'img flowable list" where
  "label_loop lib selected_fields n i [] elements = elements"
| "label_loop lib selected_fields n i (record # records) elements =
     label_loop lib selected_fields n (i + 1) records
       (snd (label_body lib selected_fields i n record elements))"

definition story :: "('img, 'pdf) libraries \<Rightarrow> pyrecord list \<Rightarrow> string list \<Rightarrow> 'img flowable list" where
  "story lib records selected_fields = label_loop lib selected_fields (length records) 0 records []"

text \<open>\<open>try: doc.build(elements) except Exception: print(...); raise\<close>, then the buffer.\<close>

definition generate_pdf ::
  "('img, 'pdf) libraries \<Rightarrow> pyrecord list \<Rightarrow> string list \<Rightarrow> py_exception + 'pdf" where
  "generate_pdf lib records selected_fields =
     (case doc_build lib (story lib records selected_fields) of
        Inl e \<Rightarrow> Inl e
      | Inr pdf_buffer \<Rightarrow> Inr pdf_buffer)"



text \<open>
  Logical pages of a story: the layout library starts a new page at each
  \<open>PageBreak\<close>; a page break at the very end opens no further page. How the library
  paginates content that overflows one sheet is outside the model.
\<close>

fun pages_from :: "'img flowable list \<Rightarrow> 'img flowable list \<Rightarrow> 'img flowable list list" where
  "pages_from page [] = (if page = [] then [] else [page])"
| "pages_from page (x # xs) =
     (if x = PageBreak then page # pages_from [] xs else pages_from (page @ [x]) xs)"

definition pages :: "'img flowable list \<Rightarrow> 'img flowable list list" where
  "pages elements = pages_from [] elements"

section \<open>DataProcessor.validate_excel\<close>

text \<open>
  A data frame: its columns in order, each a name with its cells from the first row to the
  last. Every column of a frame has one cell per row.
\<close>

type_synonym dataframe = "(string \<times> cell list) list"

definition row_count :: "dataframe \<Rightarrow> nat" where
  "row_count df = (case df of [] \<Rightarrow> 0 | (name, series) # _ \<Rightarrow> length series)"


text \<open>\<open>df.empty\<close>: one of the two axes has length zero.\<close>

definition df_empty :: "dataframe \<Rightarrow> bool" where
  "df_empty df = (length df = 0 \<or> row_count df = 0)"

definition astype_str :: "cell list \<Rightarrow> cell list" where
  "astype_str series = map (\<lambda>v. CStr (py_str v)) series"

text \<open>\<open>df[col] = f(df[col])\<close>.\<close>

definition assign_column :: "string \<Rightarrow> (cell list \<Rightarrow> cell list) \<Rightarrow> dataframe \<Rightarrow> dataframe" where
  "assign_column col f df =
     map (\<lambda>(name, series). if name = col then (name, f series) else (name, series)) df"

fun astype_loop :: "string list \<Rightarrow> dataframe \<Rightarrow> dataframe" where
  "astype_loop [] df = df"
| "astype_loop (col # cols) df = astype_loop cols (assign_column col astype_str df)"

fun join :: "string \<Rightarrow> string list \<Rightarrow> string" where
  "join sep [] = []"
| "join sep [x] = x"
| "join sep (x # y # ys) = x @ sep @ join sep (y # ys)"

fun exception_message :: "py_exception \<Rightarrow> string" where
  "exception_message (PyException msg) = msg"

text \<open>
  \<open>validate_excel\<close>; its argument is what \<open>pd.read_excel(file)\<close> gave: a frame, or the
  exception it raised. The answer is the triple \<open>(is_valid, message, df)\<close>.
\<close>

definition validate_excel :: "py_exception + dataframe \<Rightarrow> bool \<times> string \<times> dataframe option" where
  "validate_excel file =
     (case file of
        Inl e \<Rightarrow> (False, ''Error al procesar el archivo: '' @ exception_message e, None)
      | Inr df \<Rightarrow>
          if df_empty df then (False, ''El archivo Excel no contiene datos'', None)
          else
            (let required_columns = [''WOCO''];
                 missing_columns = filter (\<lambda>col. col \<notin> set (map fst df)) required_columns
             in if missing_columns \<noteq> [] then
                  (False, ''Faltan las siguientes columnas: '' @ join '', '' missing_columns, None)
                else (True, ''Archivo validado correctamente'', Some (astype_loop (map fst df) df))))"


section \<open>Stand-ins for the libraries\<close>

text \<open>
  To run the model on concrete inputs: a renderer that accepts a payload up to the
  byte-mode capacity of the largest symbol at the given error-correction level and
  answers with the payload itself as the image, a parser that accepts every text, and a
  builder that answers with the story.
\<close>

fun byte_capacity :: "ec_level \<Rightarrow> nat" where
  "byte_capacity ERROR_CORRECT_L = 2953"
| "byte_capacity ERROR_CORRECT_M = 2331"
| "byte_capacity ERROR_CORRECT_Q = 1663"
| "byte_capacity ERROR_CORRECT_H = 1273"

definition sample_render :: "qr_settings \<Rightarrow> string \<Rightarrow> py_exception + string" where
  "sample_render cfg data =
     (if byte_capacity (error_correction cfg) < length data
      then Inl (PyException ''DataOverflowError'') else Inr data)"

definition sample_lib :: "(string, string flowable list) libraries" where
  "sample_lib = \<lparr>qr_render = sample_render, parse_markup = (\<lambda>text. None),
                  doc_build = (\<lambda>elements. Inr elements)\<rparr>"

section \<open>Properties of the payload\<close>

lemma concat_fields_acc:
  "concat_fields r sep fs acc = acc @ concat (map (\<lambda>f. py_str (record_get r f) @ sep) fs)"
  by (induction fs arbitrary: acc) simp_all

lemma concatenated_data_eq:
  "concatenated_data r sel sep =
     ''AR-QR'' @ sep @ concat (map (\<lambda>f. py_str (record_get r f) @ sep) sel)"
  unfolding concatenated_data_def concat_fields_acc by simp

lemma record_get_absent: "map_of r f = None \<Longrightarrow> py_str (record_get r f) = []"
  by (simp add: record_get_def)

text \<open>
  C1. The payload is the tag \<open>AR-QR\<close>, the separator, and then for each selected field,
  in selection order, the string form of the record's value (the empty string when the
  field is absent) followed by the separator; it is the string handed to the encoder and
  the string returned beside the image. On the specification's example the payload is
  \<open>AR-QR|14X00.004|241105-9246|50|\<close>.
\<close>

theorem payload_format:
  "concatenated_data r sel sep =
     ''AR-QR'' @ sep @
       concat (map (\<lambda>f. (case map_of r f of None \<Rightarrow> [] | Some v \<Rightarrow> py_str v) @ sep) sel)
   \<and> generate_qr_concatenated q r sel sep bs =
       map_sum id (\<lambda>img. (img, concatenated_data r sel sep))
         (q (qr_config bs) (concatenated_data r sel sep))
   \<and> concatenated_data
       [(''WOCO'', CStr ''1001''), (''ID'', CStr ''14X00.004''),
        (''LOTE'', CStr ''241105-9246''), (''PESO Kg'', CStr ''50'')]
       [''ID'', ''LOTE'', ''PESO Kg''] ''|''
     = ''AR-QR|14X00.004|241105-9246|50|''"
proof -
  have seg: "\<And>f. py_str (record_get r f) = (case map_of r f of None \<Rightarrow> [] | Some v \<Rightarrow> py_str v)"
    by (simp add: record_get_def split: option.split)
  have general: "concatenated_data r sel sep =
     ''AR-QR'' @ sep @
       concat (map (\<lambda>f. (case map_of r f of None \<Rightarrow> [] | Some v \<Rightarrow> py_str v) @ sep) sel)"
    unfolding concatenated_data_eq seg ..
  have returned: "generate_qr_concatenated q r sel sep bs =
       map_sum id (\<lambda>img. (img, concatenated_data r sel sep))
         (q (qr_config bs) (concatenated_data r sel sep))"
    by (simp add: generate_qr_concatenated_def Let_def split: sum.split)
  have example: "concatenated_data
       [(''WOCO'', CStr ''1001''), (''ID'', CStr ''14X00.004''),
        (''LOTE'', CStr ''241105-9246''), (''PESO Kg'', CStr ''50'')]
       [''ID'', ''LOTE'', ''PESO Kg''] ''|''
     = ''AR-QR|14X00.004|241105-9246|50|''"
    by (simp add: concatenated_data_def record_get_def)
  from general returned example show ?thesis by blast
qed

theorem payload_format_witness:
  "concatenated_data [(''WOCO'', CInt 1001), (''ID'', CStr ''7'')] [''ID'', ''LOTE'', ''WOCO''] ''|''
     = ''AR-QR|7||1001|''"
proof -
  have "nat_to_dec 1001 = ''1001''" by code_simp
  then show ?thesis
    using payload_format [THEN conjunct1, of "[(''WOCO'', CInt 1001), (''ID'', CStr ''7'')]"
        "[''ID'', ''LOTE'', ''WOCO'']" "''|''"]
    by simp
qed

text \<open>
  C10. The payload depends only on the selected fields: two records that agree on every
  selected field (the same value, or both without the field) give the same payload and
  the same result of the builder, whatever else they hold.
\<close>

theorem payload_depends_on_selection_only:
  assumes "\<forall>f \<in> set sel. map_of r1 f = map_of r2 f"
  shows "concatenated_data r1 sel sep = concatenated_data r2 sel sep
    \<and> generate_qr_concatenated q r1 sel sep bs = generate_qr_concatenated q r2 sel sep bs"
proof -
  from assms have "\<forall>f \<in> set sel. record_get r1 f = record_get r2 f"
    by (simp add: record_get_def)
  then have "map (\<lambda>f. py_str (record_get r1 f) @ sep) sel
      = map (\<lambda>f. py_str (record_get r2 f) @ sep) sel"
    by simp
  then have "concatenated_data r1 sel sep = concatenated_data r2 sel sep"
    unfolding concatenated_data_eq by (rule arg_cong)
  then show ?thesis by (simp add: generate_qr_concatenated_def)
qed

theorem payload_depends_on_selection_only_witness:
  "concatenated_data [(''ID'', CStr ''14X''), (''PEDIDO'', CStr ''S1'')] [''ID'', ''LOTE''] ''|''
     = concatenated_data [(''WOCO'', CInt 3), (''ID'', CStr ''14X'')] [''ID'', ''LOTE''] ''|''
   \<and> concatenated_data [(''ID'', CStr ''14X''), (''PEDIDO'', CStr ''S1'')] [''ID'', ''LOTE''] ''|''
     = ''AR-QR|14X||''"
proof -
  have agree: "\<forall>f \<in> set [''ID'', ''LOTE''].
      map_of [(''ID'', CStr ''14X''), (''PEDIDO'', CStr ''S1'')] f
        = map_of [(''WOCO'', CInt 3), (''ID'', CStr ''14X'')] f"
    by simp
  have "concatenated_data [(''WOCO'', CInt 3), (''ID'', CStr ''14X'')] [''ID'', ''LOTE''] ''|''
      = ''AR-QR|14X||''"
    by (simp add: concatenated_data_def record_get_def)
  with payload_depends_on_selection_only [OF agree, THEN conjunct1, of "''|''"]
  show ?thesis by simp
qed

section \<open>Segments of the payload\<close>

lemma segments_from_piece:
  "c \<notin> set s \<Longrightarrow> segments_from c cur (s @ c # rest) = (cur @ s) # segments_from c [] rest"
  by (induction s arbitrary: cur) auto

lemma segments_from_fields:
  "\<forall>f \<in> set fs. c \<notin> set (v f) \<Longrightarrow>
     segments_from c [] (concat (map (\<lambda>f. v f @ [c]) fs)) = map v fs"
proof (induction fs)
  case Nil
  then show ?case by simp
next
  case (Cons f fs)
  then have "c \<notin> set (v f)" by simp
  from segments_from_piece [OF this, of "[]"] Cons show ?case by simp
qed

text \<open>
  C2 as stated does not hold: a selected value that holds the separator adds a segment.
  The record \<open>{ID: "a|b"}\<close> with the selection \<open>[ID]\<close> gives the payload
  \<open>AR-QR|a|b|\<close>, of three segments and not two.
\<close>

theorem segment_count_counterexample:
  "length (segments (CHR ''|'') (concatenated_data [(''ID'', CStr ''a|b'')] [''ID''] ''|''))
     \<noteq> length [''ID''] + 1"
  by (simp add: segments_def concatenated_data_def record_get_def)

text \<open>
  C2, amended. When the separator character occurs neither in the tag nor in the string
  form of any selected value of the record, the segments of the payload are the tag
  followed by one segment per selected field, in selection order: their number is the
  length of the selection plus one, and the segment of a field missing from the record
  is the empty string, at that field's position.
\<close>

theorem segment_count_when_separator_free:
  assumes "c \<notin> set ''AR-QR''"
    and "\<forall>f \<in> set sel. c \<notin> set (py_str (record_get r f))"
  shows "segments c (concatenated_data r sel [c])
        = ''AR-QR'' # map (\<lambda>f. py_str (record_get r f)) sel
    \<and> length (segments c (concatenated_data r sel [c])) = length sel + 1
    \<and> (\<forall>i < length sel. map_of r (sel ! i) = None \<longrightarrow>
          segments c (concatenated_data r sel [c]) ! (i + 1) = [])"
proof -
  have "segments c (concatenated_data r sel [c])
      = segments_from c [] (''AR-QR'' @ c # concat (map (\<lambda>f. py_str (record_get r f) @ [c]) sel))"
    by (simp add: segments_def concatenated_data_eq)
  also have "\<dots> = ([] @ ''AR-QR'') #
      segments_from c [] (concat (map (\<lambda>f. py_str (record_get r f) @ [c]) sel))"
    using assms(1) by (rule segments_from_piece)
  also have "\<dots> = ''AR-QR'' # map (\<lambda>f. py_str (record_get r f)) sel"
    using segments_from_fields [OF assms(2)] by simp
  finally have eq: "segments c (concatenated_data r sel [c])
      = ''AR-QR'' # map (\<lambda>f. py_str (record_get r f)) sel" .
  then show ?thesis by (simp add: record_get_absent)
qed

theorem segment_count_when_separator_free_witness:
  "segments (CHR ''|'') (concatenated_data [(''ID'', CStr ''14X'')] [''LOTE'', ''ID''] ''|'')
     = [''AR-QR'', '''', ''14X'']"
proof -
  have tag: "CHR ''|'' \<notin> set ''AR-QR''" by simp
  have vals: "\<forall>f \<in> set [''LOTE'', ''ID''].
      CHR ''|'' \<notin> set (py_str (record_get [(''ID'', CStr ''14X'')] f))"
    by (simp add: record_get_def)
  from segment_count_when_separator_free [OF tag vals] show ?thesis
    by (simp add: record_get_def)
qed

section \<open>The builder and the renderer\<close>

text \<open>
  C5. When the renderer rejects the payload at the configured settings (version 1 with
  automatic fit, error-correction level L, the given module size, border 4), the builder
  fails with the renderer's exception. Its result depends on the renderer's answer at
  these settings alone: it asks for no second rendering under other settings.
\<close>

theorem render_failure_propagates:
  "(q (qr_config bs) (concatenated_data r sel sep) = Inl e \<longrightarrow>
      generate_qr_concatenated q r sel sep bs = Inl e)
   \<and> (q (qr_config bs) = q' (qr_config bs) \<longrightarrow>
      generate_qr_concatenated q r sel sep bs = generate_qr_concatenated q' r sel sep bs)
   \<and> error_correction (qr_config bs) = ERROR_CORRECT_L"
  by (simp add: generate_qr_concatenated_def qr_config_def)

theorem render_failure_propagates_witness:
  "generate_qr_concatenated sample_render
     [(''ID'', CStr (replicate 3000 (CHR ''x'')))] [''ID''] ''|'' 10
   = Inl (PyException ''DataOverflowError'')"
proof -
  have too_long: "sample_render (qr_config 10)
      (concatenated_data [(''ID'', CStr (replicate 3000 (CHR ''x'')))] [''ID''] ''|'')
    = Inl (PyException ''DataOverflowError'')"
    by (simp add: sample_render_def qr_config_def concatenated_data_def record_get_def)
  from render_failure_propagates [where q = sample_render and bs = 10
      and r = "[(''ID'', CStr (replicate 3000 (CHR ''x'')))]" and sel = "[''ID'']"
      and sep = "''|''" and e = "PyException ''DataOverflowError''"] too_long
  show ?thesis by blast
qed

section \<open>The final build\<close>

text \<open>
  C6. When \<open>doc.build\<close> raises on the story, \<open>generate_pdf\<close> fails with that exception
  and returns no document.
\<close>

theorem build_failure_is_fatal:
  assumes "doc_build lib (story lib records sel) = Inl e"
  shows "generate_pdf lib records sel = Inl e
    \<and> (\<forall>pdf. generate_pdf lib records sel \<noteq> Inr pdf)"
  using assms by (simp add: generate_pdf_def)

theorem build_failure_is_fatal_witness:
  "generate_pdf (sample_lib\<lparr>doc_build := \<lambda>elements. Inl (PyException ''LayoutError'')\<rparr>)
     [[(''ID'', CStr ''a'')]] [''ID'']
   = Inl (PyException ''LayoutError'')"
proof -
  have fails: "doc_build (sample_lib\<lparr>doc_build := \<lambda>elements. Inl (PyException ''LayoutError'')\<rparr>)
      (story (sample_lib\<lparr>doc_build := \<lambda>elements. Inl (PyException ''LayoutError'')\<rparr>)
         [[(''ID'', CStr ''a'')]] [''ID''])
    = Inl (PyException ''LayoutError'')"
    by simp
  from build_failure_is_fatal [OF fails] show ?thesis by simp
qed

section \<open>Validation\<close>








text \<open>
  C4. A frame with no rows is rejected with the message that the file holds no data, and
  a frame without the column \<open>WOCO\<close> is rejected as well (with the message naming the
  missing column when it has rows); in both cases the flag is \<open>False\<close> and no frame is
  returned.
\<close>

theorem invalid_input_rejected:
  "(row_count df = 0 \<longrightarrow>
      validate_excel (Inr df) = (False, ''El archivo Excel no contiene datos'', None))
   \<and> (''WOCO'' \<notin> set (map fst df) \<longrightarrow>
      fst (validate_excel (Inr df)) = False \<and> snd (snd (validate_excel (Inr df))) = None)
   \<and> (\<not> df_empty df \<and> ''WOCO'' \<notin> set (map fst df) \<longrightarrow>
      validate_excel (Inr df) = (False, ''Faltan las siguientes columnas: WOCO'', None))"
  by (simp add: validate_excel_def df_empty_def)

theorem invalid_input_rejected_witness:
  "validate_excel (Inr [(''WOCO'', []), (''ID'', [])])
     = (False, ''El archivo Excel no contiene datos'', None)
   \<and> validate_excel (Inr [(''ID'', [CStr ''14X00.004'']), (''LOTE'', [CInt 7])])
     = (False, ''Faltan las siguientes columnas: WOCO'', None)"
proof -
  have no_rows: "row_count [(''WOCO'', []), (''ID'', [])] = 0"
    by (simp add: row_count_def)
  have no_marker: "\<not> df_empty [(''ID'', [CStr ''14X00.004'']), (''LOTE'', [CInt 7])]
      \<and> ''WOCO'' \<notin> set (map fst [(''ID'', [CStr ''14X00.004'']), (''LOTE'', [CInt 7])])"
    by (simp add: df_empty_def row_count_def)
  from invalid_input_rejected [THEN conjunct1, rule_format, OF no_rows]
    invalid_input_rejected [THEN conjunct2, THEN conjunct2, rule_format, OF no_marker]
  show ?thesis by (rule conjI)
qed



section \<open>The attribute table\<close>









section \<open>One label\<close>






section \<open>The whole batch\<close>








text \<open>
  C3 on batches of two records of which one cannot be encoded (its payload is longer
  than the capacity). The generation goes on and succeeds, and the other record's label
  is whole, but the spacer that the failing record's body appended before the rendering
  raised stays in the story. When the failing record is the last one, the spacer follows
  the page break of the first record and the story has two pages, not one; when it is
  the first one, the spacer opens the page of the second record.
\<close>

theorem failed_record_leaves_content:
  "story sample_lib
      [[(''ID'', CStr ''a'')], [(''ID'', CStr (replicate 3000 (CHR ''x'')))]] [''ID'']
     = [Spacer 3, QRImage ''AR-QR|a|'', Spacer 3,
        Table [(Paragraph ''<b>Id</b>:'' NormalStyle, Paragraph ''a'' NormalStyle)],
        Spacer 2, Para (Paragraph ''<i>QR: AR-QR|a|</i>'' QRNote), PageBreak, Spacer 3]
   \<and> length (pages (story sample_lib
      [[(''ID'', CStr ''a'')], [(''ID'', CStr (replicate 3000 (CHR ''x'')))]] [''ID''])) = 2
   \<and> fst (label_body sample_lib [''ID''] 1 2 [(''ID'', CStr (replicate 3000 (CHR ''x'')))] [])
     = Some (PyException ''DataOverflowError'')
   \<and> story sample_lib
      [[(''ID'', CStr (replicate 3000 (CHR ''x'')))], [(''ID'', CStr ''a'')]] [''ID'']
     = [Spacer 3, Spacer 3, QRImage ''AR-QR|a|'', Spacer 3,
        Table [(Paragraph ''<b>Id</b>:'' NormalStyle, Paragraph ''a'' NormalStyle)],
        Spacer 2, Para (Paragraph ''<i>QR: AR-QR|a|</i>'' QRNote)]
   \<and> generate_pdf sample_lib
      [[(''ID'', CStr ''a'')], [(''ID'', CStr (replicate 3000 (CHR ''x'')))]] [''ID'']
     = Inr (story sample_lib
      [[(''ID'', CStr ''a'')], [(''ID'', CStr (replicate 3000 (CHR ''x'')))]] [''ID''])"
proof -
  have cap: "capitalize ''ID'' = ''Id''" by code_simp
  have st: "story sample_lib
      [[(''ID'', CStr ''a'')], [(''ID'', CStr (replicate 3000 (CHR ''x'')))]] [''ID'']
     = [Spacer 3, QRImage ''AR-QR|a|'', Spacer 3,
        Table [(Paragraph ''<b>Id</b>:'' NormalStyle, Paragraph ''a'' NormalStyle)],
        Spacer 2, Para (Paragraph ''<i>QR: AR-QR|a|</i>'' QRNote), PageBreak, Spacer 3]"
    by (simp add: story_def label_body_def add_title_def new_paragraph_def
        generate_qr_concatenated_def sample_lib_def sample_render_def qr_config_def
        concatenated_data_def record_get_def table_data_def table_row_def
        cap Let_def del: capitalize.simps)
  have pg: "length (pages [Spacer 3, QRImage ''AR-QR|a|'', Spacer 3,
        Table [(Paragraph ''<b>Id</b>:'' NormalStyle, Paragraph ''a'' NormalStyle)],
        Spacer 2, Para (Paragraph ''<i>QR: AR-QR|a|</i>'' QRNote), PageBreak, Spacer 3]) = 2"
    by (simp add: pages_def)
  have ex: "fst (label_body sample_lib [''ID''] 1 2
        [(''ID'', CStr (replicate 3000 (CHR ''x'')))] [])
     = Some (PyException ''DataOverflowError'')"
    by (simp add: label_body_def add_title_def generate_qr_concatenated_def sample_lib_def
        sample_render_def qr_config_def concatenated_data_def record_get_def Let_def)
  have st2: "story sample_lib
      [[(''ID'', CStr (replicate 3000 (CHR ''x'')))], [(''ID'', CStr ''a'')]] [''ID'']
     = [Spacer 3, Spacer 3, QRImage ''AR-QR|a|'', Spacer 3,
        Table [(Paragraph ''<b>Id</b>:'' NormalStyle, Paragraph ''a'' NormalStyle)],
        Spacer 2, Para (Paragraph ''<i>QR: AR-QR|a|</i>'' QRNote)]"
    by (simp add: story_def label_body_def add_title_def new_paragraph_def
        generate_qr_concatenated_def sample_lib_def sample_render_def qr_config_def
        concatenated_data_def record_get_def table_data_def table_row_def
        cap Let_def del: capitalize.simps)
  have gen: "generate_pdf sample_lib
      [[(''ID'', CStr ''a'')], [(''ID'', CStr (replicate 3000 (CHR ''x'')))]] [''ID'']
     = Inr (story sample_lib
      [[(''ID'', CStr ''a'')], [(''ID'', CStr (replicate 3000 (CHR ''x'')))]] [''ID''])"
    by (simp add: generate_pdf_def sample_lib_def)
  from st pg ex st2 gen show ?thesis by simp
qed

end
